theory Spec2Isabelle
  imports Main
begin

section \<open>Accounts, payloads, requests\<close>

text \<open>
  The router of \<^verbatim>\<open>fastapi_users/router/users.py\<close> works on three kinds of data whose
  declarations live in \<^verbatim>\<open>fastapi_users.models\<close>: the stored account
  (\<^verbatim>\<open>user_db_model\<close>), the account as shown to callers (\<^verbatim>\<open>user_model\<close>) and the update
  payload (\<^verbatim>\<open>user_update_model\<close>).
\<close>

text \<open>Identifiers (\<^verbatim>\<open>UUID4\<close> in the source) are opaque; only their equality is used.\<close>

type_synonym ident = nat

text \<open>
  Modelled from the spec: \<^verbatim>\<open>models.BaseUserDB\<close> is absent. Section 3 gives an Account an
  opaque identifier, an email, a hashed credential, the flags \<open>active\<close>, \<open>verified\<close> and
  \<open>superuser\<close>, and domain-specific profile fields.
\<close>

record account =
  ident :: ident
  email :: string
  hashed_credential :: string
  active :: bool
  verified :: bool
  superuser :: bool
  profile :: "string \<rightharpoonup> string"

text \<open>
  Modelled from the spec: \<^verbatim>\<open>models.BaseUser\<close> is absent. It is the caller-facing Account
  schema, which leaves the hashed credential out (section 4.2, step 7).
\<close>

record public_account =
  pub_ident :: ident
  pub_email :: string
  pub_active :: bool
  pub_verified :: bool
  pub_superuser :: bool
  pub_profile :: "string \<rightharpoonup> string"

text \<open>
  Modelled from the spec: the serialisation of an account under
  \<^verbatim>\<open>response_model=user_model\<close> copies every field of the caller-facing schema.
\<close>

definition user_model :: "account \<Rightarrow> public_account" where
  "user_model a =
     \<lparr>pub_ident = ident a, pub_email = email a, pub_active = active a,
      pub_verified = verified a, pub_superuser = superuser a, pub_profile = profile a\<rparr>"

text \<open>
  Modelled from the spec: \<^verbatim>\<open>models.BaseUserUpdate\<close> is absent. A payload proposes new
  values for some fields, each one optional; a Field-Change Set (the \<^verbatim>\<open>Dict[str, Any]\<close> of
  the source) has the same shape, a field that is \<open>None\<close> being a key that is not there.
\<close>

record user_update =
  new_email :: "string option"
  new_password :: "string option"
  new_active :: "bool option"
  new_verified :: "bool option"
  new_superuser :: "bool option"
  new_profile :: "string \<rightharpoonup> string"

type_synonym update_dict = user_update

text \<open>
  Modelled from the spec: the two extraction methods of the payload model are absent.
  Section 4.1: for \<open>self\<close> only non-privileged fields are copied, the privileged ones
  present in the payload are dropped, not errored; for \<open>privileged\<close> every settable field
  is copied.
\<close>

definition create_update_dict :: "user_update \<Rightarrow> update_dict" where
  "create_update_dict u = u\<lparr>new_active := None, new_verified := None, new_superuser := None\<rparr>"

definition create_update_dict_superuser :: "user_update \<Rightarrow> update_dict" where
  "create_update_dict_superuser u = u"

text \<open>
  The request context. What the handlers do with it is hand it to the principal resolver
  and to the notification hook; \<open>principal_id\<close> is the identity that the authentication
  subsystem has established for the request, if any.
\<close>

record request =
  principal_id :: "ident option"

section \<open>Exceptions and effects\<close>

datatype error_code = UPDATE_USER_INVALID_PASSWORD | UPDATE_USER_EMAIL_ALREADY_EXISTS

datatype detail = NoDetail | Code error_code | CodeReason error_code string

text \<open>
  The exceptions of \<^verbatim>\<open>fastapi_users.manager\<close> that the router imports, FastAPI's
  \<^verbatim>\<open>HTTPException\<close> (status code and detail), the authorization error of the principal
  resolver (section 7) and any other exception, which the router never names.
\<close>

datatype exc =
    UserNotExists
  | UserAlreadyExists
  | InvalidPasswordException string
  | HTTPException nat detail
  | AuthorizationError
  | OtherException string

definition HTTP_204_NO_CONTENT :: nat where "HTTP_204_NO_CONTENT = 204"
definition HTTP_400_BAD_REQUEST :: nat where "HTTP_400_BAD_REQUEST = 400"
definition HTTP_404_NOT_FOUND :: nat where "HTTP_404_NOT_FOUND = 404"
definition HTTP_200_OK :: nat where "HTTP_200_OK = 200"

text \<open>
  An awaited call runs in a world \<open>'s\<close> (the account store and whatever else the
  collaborators keep), may change it, and either returns a value or raises.
\<close>

type_synonym ('a, 's) eff = "'s \<Rightarrow> (exc + 'a) \<times> 's"

definition return_eff :: "'a \<Rightarrow> ('a, 's) eff" where
  "return_eff a s = (Inr a, s)"

definition raise_exc :: "exc \<Rightarrow> ('a, 's) eff" where
  "raise_exc e s = (Inl e, s)"

definition then_eff :: "('a, 's) eff \<Rightarrow> ('a \<Rightarrow> ('b, 's) eff) \<Rightarrow> ('b, 's) eff" where
  "then_eff m f s = (case m s of (Inl e, s') \<Rightarrow> (Inl e, s') | (Inr a, s') \<Rightarrow> f a s')"

definition try_except :: "('a, 's) eff \<Rightarrow> (exc \<Rightarrow> ('a, 's) eff) \<Rightarrow> ('a, 's) eff" where
  "try_except m h s = (case m s of (Inl e, s') \<Rightarrow> h e s' | (Inr a, s') \<Rightarrow> (Inr a, s'))"

section \<open>The collaborators of the router\<close>

text \<open>
  \<^verbatim>\<open>UserManager\<close>: the three methods the router calls, \<^verbatim>\<open>get(id)\<close>,
  \<^verbatim>\<open>update(user_update, user, safe)\<close> and \<^verbatim>\<open>delete(user)\<close>.
\<close>

record 's user_manager =
  um_get :: "ident \<Rightarrow> (account, 's) eff"
  um_update :: "user_update \<Rightarrow> account \<Rightarrow> bool \<Rightarrow> (account, 's) eff"
  um_delete :: "account \<Rightarrow> (unit, 's) eff"

text \<open>
  \<^verbatim>\<open>Authenticator.current_user(active, verified, superuser)\<close> builds the dependency that
  resolves a request to its principal.
\<close>

record 's authenticator =
  current_user :: "bool \<Rightarrow> bool \<Rightarrow> bool \<Rightarrow> request \<Rightarrow> (account, 's) eff"

type_synonym 's hook = "account \<Rightarrow> update_dict \<Rightarrow> request \<Rightarrow> (unit, 's) eff"

text \<open>The arguments of \<^verbatim>\<open>get_users_router\<close> that its closures use.\<close>

record 's router =
  get_user_manager :: "'s user_manager"
  authenticator :: "'s authenticator"
  after_update :: "'s hook option"
  requires_verification :: bool

text \<open>
  Modelled from the spec: \<^verbatim>\<open>run_handler\<close> of \<^verbatim>\<open>fastapi_users.router.common\<close> is absent.
  Section 4.2, step 6: the hook is invoked with the updated account, the change set and
  the request context; whatever it raises reaches the caller of \<^verbatim>\<open>run_handler\<close>.
\<close>

definition run_handler :: "'s hook \<Rightarrow> account \<Rightarrow> update_dict \<Rightarrow> request \<Rightarrow> (unit, 's) eff" where
  "run_handler handler a d rq = handler a d rq"

section \<open>The router: \<^verbatim>\<open>get_users_router\<close>\<close>

definition get_current_active_user :: "'s router \<Rightarrow> request \<Rightarrow> (account, 's) eff" where
  "get_current_active_user r = current_user (authenticator r) True (requires_verification r) False"

definition get_current_superuser :: "'s router \<Rightarrow> request \<Rightarrow> (account, 's) eff" where
  "get_current_superuser r = current_user (authenticator r) True (requires_verification r) True"

definition get_user_or_404 :: "'s router \<Rightarrow> ident \<Rightarrow> (account, 's) eff" where
  "get_user_or_404 r i =
     try_except (um_get (get_user_manager r) i)
       (\<lambda>e. case e of
          UserNotExists \<Rightarrow> raise_exc (HTTPException HTTP_404_NOT_FOUND NoDetail)
        | _ \<Rightarrow> raise_exc e)"

definition me :: "account \<Rightarrow> (account, 's) eff" where
  "me user = return_eff user"

definition update_me :: "'s router \<Rightarrow> request \<Rightarrow> user_update \<Rightarrow> account \<Rightarrow> (account, 's) eff" where
  "update_me r rq upd user =
     try_except
       (then_eff (um_update (get_user_manager r) upd user True) (\<lambda>updated_user.
        then_eff (case after_update r of
                    Some h \<Rightarrow> run_handler h updated_user (create_update_dict upd) rq
                  | None \<Rightarrow> return_eff ()) (\<lambda>_.
        return_eff updated_user)))
       (\<lambda>e. case e of
          InvalidPasswordException reason \<Rightarrow>
            raise_exc (HTTPException HTTP_400_BAD_REQUEST
                         (CodeReason UPDATE_USER_INVALID_PASSWORD reason))
        | UserAlreadyExists \<Rightarrow>
            raise_exc (HTTPException HTTP_400_BAD_REQUEST (Code UPDATE_USER_EMAIL_ALREADY_EXISTS))
        | _ \<Rightarrow> raise_exc e)"

definition get_user :: "account \<Rightarrow> (account, 's) eff" where
  "get_user user = return_eff user"

definition update_user :: "'s router \<Rightarrow> user_update \<Rightarrow> request \<Rightarrow> account \<Rightarrow> (account, 's) eff" where
  "update_user r upd rq user =
     try_except
       (then_eff (um_update (get_user_manager r) upd user False) (\<lambda>updated_user.
        then_eff (case after_update r of
                    Some h \<Rightarrow> run_handler h updated_user (create_update_dict_superuser upd) rq
                  | None \<Rightarrow> return_eff ()) (\<lambda>_.
        return_eff updated_user)))
       (\<lambda>e. case e of
          InvalidPasswordException reason \<Rightarrow>
            raise_exc (HTTPException HTTP_400_BAD_REQUEST
                         (CodeReason UPDATE_USER_INVALID_PASSWORD reason))
        | UserAlreadyExists \<Rightarrow>
            raise_exc (HTTPException HTTP_400_BAD_REQUEST (Code UPDATE_USER_EMAIL_ALREADY_EXISTS))
        | _ \<Rightarrow> raise_exc e)"

definition delete_user :: "'s router \<Rightarrow> account \<Rightarrow> (unit, 's) eff" where
  "delete_user r user = then_eff (um_delete (get_user_manager r) user) (\<lambda>_. return_eff ())"

subsection \<open>The routes\<close>

text \<open>
  A route is its decorator and its endpoint. FastAPI resolves the dependencies of the
  decorator first, then those of the endpoint's parameters, each dependency once per
  request, and calls the endpoint only when all of them returned; the value the endpoint
  returns is serialised with the route's \<^verbatim>\<open>response_model\<close> under the route's status code
  (200 unless the decorator names another).
\<close>

datatype body = Empty | Account public_account

record response =
  status_code :: nat
  content :: body

datatype operation =
    GET_me
  | PATCH_me user_update
  | GET_id ident
  | PATCH_id ident user_update
  | DELETE_id ident

definition respond_user :: "account \<Rightarrow> (response, 's) eff" where
  "respond_user a = return_eff \<lparr>status_code = HTTP_200_OK, content = Account (user_model a)\<rparr>"

definition get_users_router :: "'s router \<Rightarrow> operation \<Rightarrow> request \<Rightarrow> (response, 's) eff" where
  "get_users_router r op rq =
     (case op of
        GET_me \<Rightarrow>
          then_eff (get_current_active_user r rq) (\<lambda>user.
          then_eff (me user) respond_user)
      | PATCH_me upd \<Rightarrow>
          then_eff (get_current_active_user r rq) (\<lambda>user.
          then_eff (update_me r rq upd user) respond_user)
      | GET_id i \<Rightarrow>
          then_eff (get_current_superuser r rq) (\<lambda>_.
          then_eff (get_user_or_404 r i) (\<lambda>user.
          then_eff (get_user user) respond_user))
      | PATCH_id i upd \<Rightarrow>
          then_eff (get_current_superuser r rq) (\<lambda>_.
          then_eff (get_user_or_404 r i) (\<lambda>user.
          then_eff (update_user r upd rq user) respond_user))
      | DELETE_id i \<Rightarrow>
          then_eff (get_current_superuser r rq) (\<lambda>_.
          then_eff (get_user_or_404 r i) (\<lambda>user.
          then_eff (delete_user r user) (\<lambda>_.
          return_eff \<lparr>status_code = HTTP_204_NO_CONTENT, content = Empty\<rparr>))))"

section \<open>Observing the calls\<close>

text \<open>
  To say which collaborator was called, with which arguments and in which order, every
  collaborator is wrapped so that it appends a record of the call to a log kept beside
  the world. The handlers themselves are not changed: they run in the world
  \<open>event list \<times> 's\<close> with the wrapped collaborators.
\<close>

datatype event =
    Resolve bool bool bool request
  | Get ident
  | Update user_update account bool
  | Delete account
  | Notify account update_dict request

definition traced :: "event \<Rightarrow> ('a, 's) eff \<Rightarrow> ('a, event list \<times> 's) eff" where
  "traced ev m ls = (case m (snd ls) of (res, s') \<Rightarrow> (res, (fst ls @ [ev], s')))"

definition traced_manager :: "'s user_manager \<Rightarrow> (event list \<times> 's) user_manager" where
  "traced_manager m =
     \<lparr>um_get = (\<lambda>i. traced (Get i) (um_get m i)),
      um_update = (\<lambda>upd user safe. traced (Update upd user safe) (um_update m upd user safe)),
      um_delete = (\<lambda>user. traced (Delete user) (um_delete m user))\<rparr>"

definition traced_router :: "'s router \<Rightarrow> (event list \<times> 's) router" where
  "traced_router r =
     \<lparr>get_user_manager = traced_manager (get_user_manager r),
      authenticator =
        \<lparr>current_user = (\<lambda>act ver su rq.
           traced (Resolve act ver su rq) (current_user (authenticator r) act ver su rq))\<rparr>,
      after_update =
        map_option (\<lambda>h a d rq. traced (Notify a d rq) (h a d rq)) (after_update r),
      requires_verification = requires_verification r\<rparr>"

text \<open>
  What the log gains from the notification step of an update handler: one \<open>Notify\<close> when
  the manager's update returned an account and a hook is configured, nothing otherwise.
\<close>

definition notified :: "'s router \<Rightarrow> update_dict \<Rightarrow> request \<Rightarrow> exc + account \<Rightarrow> event list" where
  "notified r d rq res =
     (case res of
        Inl e \<Rightarrow> []
      | Inr u \<Rightarrow> (case after_update r of None \<Rightarrow> [] | Some h \<Rightarrow> [Notify u d rq]))"

text \<open>
  The Gate column of the routing table of the spec (section 4.2), to be compared with the
  dependencies of the routes: the operations addressed by identifier are for superusers
  only.
\<close>

fun admin_only :: "operation \<Rightarrow> bool" where
  "admin_only GET_me = False"
| "admin_only (PATCH_me upd) = False"
| "admin_only (GET_id i) = True"
| "admin_only (PATCH_id i upd) = True"
| "admin_only (DELETE_id i) = True"

section \<open>The account store and the account manager of the spec\<close>

text \<open>
  Modelled from the spec: \<^verbatim>\<open>fastapi_users.manager.UserManager\<close> and the store behind it are
  absent. The world is the table of accounts. Section 2: the store returns the account
  of an identifier or signals "not found".
\<close>

type_synonym store = "account list"

definition get_account :: "ident \<Rightarrow> (account, store) eff" where
  "get_account i db =
     (case find (\<lambda>a. ident a = i) db of
        None \<Rightarrow> (Inl UserNotExists, db)
      | Some a \<Rightarrow> (Inr a, db))"

text \<open>
  Modelled from the spec: \<^verbatim>\<open>UserManager.delete\<close> is absent. Section 6:
  \<^verbatim>\<open>delete_account(account) -> ()\<close>.
\<close>

definition delete_account :: "account \<Rightarrow> (unit, store) eff" where
  "delete_account a db = (Inr (), filter (\<lambda>b. ident b \<noteq> ident a) db)"

text \<open>
  Modelled from the spec: the caller-defined rules of the account manager (section 4.1)
  are absent. The password rule answers with the reason when it rejects a proposed
  credential; the hash turns an accepted one into the stored credential.
\<close>

record manager_rules =
  password_rule :: "string \<Rightarrow> string option"
  hash_password :: "string \<Rightarrow> string"

text \<open>
  Modelled from the spec: section 4.1, \<^verbatim>\<open>validate_password(payload, account_manager_rules)\<close>.
  Only a payload that proposes a credential is checked; a failure carries the reason.
\<close>

definition validate_password :: "update_dict \<Rightarrow> manager_rules \<Rightarrow> string option" where
  "validate_password d rules =
     (case new_password d of None \<Rightarrow> None | Some p \<Rightarrow> password_rule rules p)"

text \<open>
  Modelled from the spec: section 4.1, \<^verbatim>\<open>check_email_conflict(new_email, store)\<close>, and
  section 6: the proposed email conflicts when another account of the store holds it.
  Emails are compared as they are stored.
\<close>

definition email_conflict :: "update_dict \<Rightarrow> account \<Rightarrow> store \<Rightarrow> bool" where
  "email_conflict d user db =
     (case new_email d of
        None \<Rightarrow> False
      | Some e \<Rightarrow> list_ex (\<lambda>b. ident b \<noteq> ident user \<and> email b = e) db)"

text \<open>
  Modelled from the spec: section 2, the store applies a set of field changes to an
  account and returns the updated record. A field the change set names gets the new
  value (a password its hash), every other field stays; the identifier never changes
  (section 3).
\<close>

definition apply_changes :: "manager_rules \<Rightarrow> update_dict \<Rightarrow> account \<Rightarrow> account" where
  "apply_changes rules d user =
     user\<lparr>email := (case new_email d of None \<Rightarrow> email user | Some e \<Rightarrow> e),
          hashed_credential :=
            (case new_password d of None \<Rightarrow> hashed_credential user
             | Some p \<Rightarrow> hash_password rules p),
          active := (case new_active d of None \<Rightarrow> active user | Some b \<Rightarrow> b),
          verified := (case new_verified d of None \<Rightarrow> verified user | Some b \<Rightarrow> b),
          superuser := (case new_superuser d of None \<Rightarrow> superuser user | Some b \<Rightarrow> b),
          profile := profile user ++ new_profile d\<rparr>"

text \<open>
  Modelled from the spec: the write of the store puts the updated record in the place of
  the record with its identifier.
\<close>

definition store_account :: "account \<Rightarrow> store \<Rightarrow> store" where
  "store_account a db = map (\<lambda>b. if ident b = ident a then a else b) db"

text \<open>
  Modelled from the spec: \<^verbatim>\<open>UserManager.update\<close> is absent. Section 4.2, steps 3 to 5:
  the change set is extracted in the mode of the route (\<open>safe\<close> is the self mode), a
  proposed password is checked against the rules and a failure ends the request with the
  reason, then the store applies the change set, an email held by another account ending
  the request with the already-exists error; on success the updated account is returned.
\<close>

definition update_account :: "manager_rules \<Rightarrow> user_update \<Rightarrow> account \<Rightarrow> bool \<Rightarrow> (account, store) eff" where
  "update_account rules upd user safe db =
     (let d = (if safe then create_update_dict upd else create_update_dict_superuser upd) in
      case validate_password d rules of
        Some reason \<Rightarrow> (Inl (InvalidPasswordException reason), db)
      | None \<Rightarrow>
          if email_conflict d user db then (Inl UserAlreadyExists, db)
          else (Inr (apply_changes rules d user), store_account (apply_changes rules d user) db))"

text \<open>
  Modelled from the spec: the \<^verbatim>\<open>UserManager\<close> that \<^verbatim>\<open>get_user_manager\<close> yields, made of the
  three operations above.
\<close>

definition account_manager :: "manager_rules \<Rightarrow> store user_manager" where
  "account_manager rules =
     \<lparr>um_get = get_account, um_update = update_account rules, um_delete = delete_account\<rparr>"

text \<open>
  Modelled from the spec: \<^verbatim>\<open>fastapi_users.authentication.Authenticator\<close> is absent.
  Section 4.2, step 1, and section 6: the resolver returns the principal of the request
  or an authorization error; the principal must be active, verified and superuser as far
  as the three requirements ask.
\<close>

definition resolve_principal :: "bool \<Rightarrow> bool \<Rightarrow> bool \<Rightarrow> request \<Rightarrow> (account, store) eff" where
  "resolve_principal require_active require_verified require_superuser rq db =
     (case principal_id rq of
        None \<Rightarrow> (Inl AuthorizationError, db)
      | Some i \<Rightarrow>
          (case find (\<lambda>a. ident a = i) db of
             None \<Rightarrow> (Inl AuthorizationError, db)
           | Some a \<Rightarrow>
               if (require_active \<and> \<not> active a) \<or> (require_verified \<and> \<not> verified a)
                  \<or> (require_superuser \<and> \<not> superuser a)
               then (Inl AuthorizationError, db)
               else (Inr a, db)))"

text \<open>
  Modelled from the spec: the \<^verbatim>\<open>Authenticator\<close> whose \<^verbatim>\<open>current_user\<close> is that resolver,
  and the router configured with it, the account manager of the spec, a hook or none, and
  the verification requirement.
\<close>

definition principal_resolver :: "store authenticator" where
  "principal_resolver = \<lparr>current_user = resolve_principal\<rparr>"

definition users_api :: "manager_rules \<Rightarrow> store hook option \<Rightarrow> bool \<Rightarrow> store router" where
  "users_api rules h rv =
     \<lparr>get_user_manager = account_manager rules, authenticator = principal_resolver,
      after_update = h, requires_verification = rv\<rparr>"

section \<open>A small deployment\<close>

text \<open>
  Three accounts, a password rule and two hooks, on which the theorems below are run:
  \<open>alice\<close> is an ordinary caller, \<open>root\<close> an administrator, \<open>carol\<close> a second ordinary
  account.
\<close>

definition alice :: account where
  "alice = \<lparr>ident = 1, email = ''alice@example.com'', hashed_credential = ''#wonderland'',
            active = True, verified = True, superuser = False, profile = Map.empty\<rparr>"

definition root :: account where
  "root = \<lparr>ident = 2, email = ''root@example.com'', hashed_credential = ''#toor-toor'',
           active = True, verified = True, superuser = True, profile = Map.empty\<rparr>"

definition carol :: account where
  "carol = \<lparr>ident = 3, email = ''carol@example.com'', hashed_credential = ''#christmas'',
            active = True, verified = False, superuser = False, profile = Map.empty\<rparr>"

definition directory :: store where
  "directory = [alice, root, carol]"

definition house_rules :: manager_rules where
  "house_rules =
     \<lparr>password_rule = (\<lambda>p. if length p < 3 then Some ''Password too short'' else None),
      hash_password = (\<lambda>p. CHR ''#'' # p)\<rparr>"

definition quiet_hook :: "store hook" where
  "quiet_hook a d rq = return_eff ()"

definition picky_hook :: "store hook" where
  "picky_hook a d rq = raise_exc (InvalidPasswordException ''rejected by the hook'')"

definition request_of :: "ident \<Rightarrow> request" where
  "request_of i = \<lparr>principal_id = Some i\<rparr>"

definition anonymous :: request where
  "anonymous = \<lparr>principal_id = None\<rparr>"

definition no_change :: user_update where
  "no_change =
     \<lparr>new_email = None, new_password = None, new_active = None, new_verified = None,
      new_superuser = None, new_profile = Map.empty\<rparr>"

section \<open>Running the handlers beside their log\<close>

lemmas eff_defs = return_eff_def raise_exc_def then_eff_def try_except_def run_handler_def

lemmas world_defs = alice_def root_def carol_def directory_def house_rules_def quiet_hook_def
  request_of_def no_change_def users_api_def account_manager_def principal_resolver_def

lemmas manager_defs = update_account_def validate_password_def email_conflict_def
  apply_changes_def store_account_def create_update_dict_def create_update_dict_superuser_def
  get_account_def delete_account_def resolve_principal_def

lemma traced_pair: "traced ev m (l, s) = (fst (m s), (l @ [ev], snd (m s)))"
  by (simp add: traced_def split: prod.splits)

lemma traced_router_sel:
  "um_get (get_user_manager (traced_router r)) i = traced (Get i) (um_get (get_user_manager r) i)"
  "um_update (get_user_manager (traced_router r)) upd user safe =
     traced (Update upd user safe) (um_update (get_user_manager r) upd user safe)"
  "um_delete (get_user_manager (traced_router r)) user =
     traced (Delete user) (um_delete (get_user_manager r) user)"
  "current_user (authenticator (traced_router r)) a v su rq =
     traced (Resolve a v su rq) (current_user (authenticator r) a v su rq)"
  "after_update (traced_router r) =
     map_option (\<lambda>h a d rq. traced (Notify a d rq) (h a d rq)) (after_update r)"
  "requires_verification (traced_router r) = requires_verification r"
  by (simp_all add: traced_router_def traced_manager_def)

text \<open>
  A handler run with the wrapped collaborators returns what it returns with the plain
  ones and leaves the same world; the log grows by the calls it made.
\<close>

lemma gate_traced:
  "get_current_active_user (traced_router r) rq (l, s) =
     (fst (get_current_active_user r rq s),
      (l @ [Resolve True (requires_verification r) False rq], snd (get_current_active_user r rq s)))"
  "get_current_superuser (traced_router r) rq (l, s) =
     (fst (get_current_superuser r rq s),
      (l @ [Resolve True (requires_verification r) True rq], snd (get_current_superuser r rq s)))"
  by (simp_all add: get_current_active_user_def get_current_superuser_def traced_router_sel
        traced_pair)

lemma get_user_or_404_traced:
  "get_user_or_404 (traced_router r) i (l, s) =
     (fst (get_user_or_404 r i s), (l @ [Get i], snd (get_user_or_404 r i s)))"
  by (simp add: get_user_or_404_def eff_defs traced_router_sel traced_pair
        split: prod.splits sum.splits exc.splits)

lemma update_me_traced:
  "update_me (traced_router r) rq upd user (l, s) =
     (fst (update_me r rq upd user s),
      (l @ Update upd user True #
         notified r (create_update_dict upd) rq
           (fst (um_update (get_user_manager r) upd user True s)),
       snd (update_me r rq upd user s)))"
  by (auto simp add: update_me_def eff_defs traced_router_sel traced_pair notified_def
        split: prod.splits sum.splits option.splits exc.splits)

lemma update_user_traced:
  "update_user (traced_router r) upd rq user (l, s) =
     (fst (update_user r upd rq user s),
      (l @ Update upd user False #
         notified r (create_update_dict_superuser upd) rq
           (fst (um_update (get_user_manager r) upd user False s)),
       snd (update_user r upd rq user s)))"
  by (auto simp add: update_user_def eff_defs traced_router_sel traced_pair notified_def
        split: prod.splits sum.splits option.splits exc.splits)

lemma delete_user_traced:
  "delete_user (traced_router r) user (l, s) =
     (fst (delete_user r user s), (l @ [Delete user], snd (delete_user r user s)))"
  by (simp add: delete_user_def eff_defs traced_router_sel traced_pair
        split: prod.splits sum.splits)

lemmas traced_simps = gate_traced get_user_or_404_traced update_me_traced update_user_traced
  delete_user_traced

section \<open>The account manager of the spec\<close>

lemma ident_apply_changes: "ident (apply_changes rules d user) = ident user"
  by (simp add: apply_changes_def)

lemma find_store_account_other:
  "ident a' \<noteq> i \<Longrightarrow>
   find (\<lambda>a. ident a = i) (store_account a' db) = find (\<lambda>a. ident a = i) db"
  by (induction db) (simp_all add: store_account_def)

lemma update_account_other:
  "ident user \<noteq> i \<Longrightarrow>
   find (\<lambda>a. ident a = i) (snd (update_account rules upd user safe db)) =
   find (\<lambda>a. ident a = i) db"
  by (auto simp add: update_account_def Let_def find_store_account_other ident_apply_changes
        split: option.splits if_splits)

lemma update_account_safe_flags:
  "update_account rules upd user True db = (Inr u, db') \<Longrightarrow>
   superuser u = superuser user \<and> verified u = verified user \<and> active u = active user"
  by (auto simp add: update_account_def Let_def create_update_dict_def apply_changes_def
        split: option.splits if_splits)

lemma create_update_dict_ignores:
  "create_update_dict (new_active_update f upd) = create_update_dict upd"
  "create_update_dict (new_verified_update g upd) = create_update_dict upd"
  "create_update_dict (new_superuser_update h upd) = create_update_dict upd"
  by (simp_all add: create_update_dict_def)

lemma update_account_safe_ignores:
  "update_account rules (new_active_update f upd) user True = update_account rules upd user True"
  "update_account rules (new_verified_update g upd) user True = update_account rules upd user True"
  "update_account rules (new_superuser_update h upd) user True = update_account rules upd user True"
  by (rule ext, simp add: update_account_def create_update_dict_ignores)+

lemma update_account_unsafe_flags:
  "update_account rules upd user False db = (Inr u, db') \<Longrightarrow>
   superuser u = (case new_superuser upd of None \<Rightarrow> superuser user | Some b \<Rightarrow> b) \<and>
   verified u = (case new_verified upd of None \<Rightarrow> verified user | Some b \<Rightarrow> b) \<and>
   active u = (case new_active upd of None \<Rightarrow> active user | Some b \<Rightarrow> b)"
  by (auto simp add: update_account_def Let_def create_update_dict_superuser_def apply_changes_def
        split: option.splits if_splits)

lemma resolve_principal_ident:
  "resolve_principal a v su rq db = (Inr p, db') \<Longrightarrow> principal_id rq = Some (ident p)"
  by (auto simp add: resolve_principal_def find_Some_iff split: option.splits if_splits)

lemma resolve_principal_store: "snd (resolve_principal a v su rq db) = db"
  by (simp add: resolve_principal_def split: option.splits)

text \<open>
  With a hook that leaves the store alone, the store after \<^verbatim>\<open>update_me\<close> is the store
  after the manager's update.
\<close>

lemma update_me_store:
  assumes "\<forall>h a d q db0. ho = Some h \<longrightarrow> snd (h a d q db0) = db0"
  shows "snd (update_me (users_api rules ho rv) rq upd user db) =
         snd (update_account rules upd user True db)"
proof (cases "update_account rules upd user True db")
  case (Pair res db1)
  show ?thesis
  proof (cases res)
    case (Inl e)
    with Pair show ?thesis
      by (cases e) (simp_all add: update_me_def eff_defs users_api_def account_manager_def)
  next
    case (Inr u)
    show ?thesis
    proof (cases ho)
      case None
      with Pair Inr show ?thesis
        by (simp add: update_me_def eff_defs users_api_def account_manager_def)
    next
      case (Some h)
      with assms have frame: "snd (h u (create_update_dict upd) rq db1) = db1" by simp
      obtain res2 db2 where h: "h u (create_update_dict upd) rq db1 = (res2, db2)"
        by (cases "h u (create_update_dict upd) rq db1")
      with frame have "db2 = db1" by simp
      with Pair Inr Some h show ?thesis
        by (cases res2; cases "projl res2")
           (simp_all add: update_me_def eff_defs users_api_def account_manager_def)
    qed
  qed
qed

lemma find_store_account_same:
  "find (\<lambda>a. ident a = ident a') db = Some b \<Longrightarrow>
   find (\<lambda>a. ident a = ident a') (store_account a' db) = Some a'"
  by (induction db) (auto simp add: store_account_def split: if_splits)

lemma update_account_success:
  "update_account rules upd user safe db = (Inr u, db1) \<Longrightarrow>
   db1 = store_account u db \<and> ident u = ident user"
  by (auto simp add: update_account_def Let_def ident_apply_changes split: option.splits if_splits)

text \<open>
  When \<^verbatim>\<open>update_user\<close> returns an account, the manager's update returned it; with a hook
  that leaves the store alone, the store is the one the manager's update left.
\<close>

lemma update_user_success:
  fixes r :: "store router"
  assumes "update_user (r\<lparr>get_user_manager := account_manager rules\<rparr>) upd rq user db = (Inr u, db')"
  shows "\<exists>db1. update_account rules upd user False db = (Inr u, db1) \<and>
           ((\<forall>h a d q s. after_update r = Some h \<longrightarrow> snd (h a d q s) = s) \<longrightarrow> db' = db1)"
proof (cases "update_account rules upd user False db")
  case (Pair res db1)
  show ?thesis
  proof (cases res)
    case (Inl e)
    with Pair assms show ?thesis
      by (cases e) (simp_all add: update_user_def eff_defs account_manager_def)
  next
    case (Inr u1)
    show ?thesis
    proof (cases "after_update r")
      case None
      with Pair Inr assms show ?thesis
        by (simp add: update_user_def eff_defs account_manager_def)
    next
      case (Some h)
      obtain res2 db2 where h: "h u1 (create_update_dict_superuser upd) rq db1 = (res2, db2)"
        by (cases "h u1 (create_update_dict_superuser upd) rq db1")
      have frame: "(\<forall>h a d q s. after_update r = Some h \<longrightarrow> snd (h a d q s) = s) \<longrightarrow> db2 = db1"
        using Some h by (metis snd_conv)
      from Pair Inr Some h assms have "res2 = Inr () \<and> u = u1 \<and> db' = db2"
        by (cases res2; cases "projl res2")
           (simp_all add: update_user_def eff_defs account_manager_def)
      with Pair Inr frame show ?thesis by simp
    qed
  qed
qed

lemmas run_defs = eff_defs update_me_def update_user_def delete_user_def get_user_or_404_def
  me_def get_user_def get_users_router_def get_current_active_user_def get_current_superuser_def
  respond_user_def user_model_def
  HTTP_200_OK_def HTTP_204_NO_CONTENT_def HTTP_400_BAD_REQUEST_def HTTP_404_NOT_FOUND_def

lemma users_api_manager:
  "(users_api rules ho rv)\<lparr>get_user_manager := account_manager rules\<rparr> = users_api rules ho rv"
  by (simp add: users_api_def)

section \<open>The self-service update\<close>

text \<open>
  Claim C1. Whatever the payload of a self-service update says about \<open>superuser\<close>,
  \<open>verified\<close> and \<open>active\<close>, the account that \<^verbatim>\<open>update_me\<close> returns has these three
  fields as the caller's account had them; and the values are dropped, not rejected:
  the handler does exactly what it does on the payload without them. The handler calls
  the manager with \<open>safe = True\<close>; the manager is the one of the spec, the resolver and the
  hook are arbitrary.
\<close>

theorem self_update_keeps_privileged_fields:
  fixes r :: "store router"
  shows "(update_me (r\<lparr>get_user_manager := account_manager rules\<rparr>) rq upd user db = (Inr u, db') \<longrightarrow>
       superuser u = superuser user \<and> verified u = verified user \<and> active u = active user)
   \<and> update_me (r\<lparr>get_user_manager := account_manager rules\<rparr>) rq
        (upd\<lparr>new_active := a, new_verified := v, new_superuser := su\<rparr>) user db =
      update_me (r\<lparr>get_user_manager := account_manager rules\<rparr>) rq upd user db"
proof
  show "update_me (r\<lparr>get_user_manager := account_manager rules\<rparr>) rq upd user db = (Inr u, db') \<longrightarrow>
       superuser u = superuser user \<and> verified u = verified user \<and> active u = active user"
  proof
    assume "update_me (r\<lparr>get_user_manager := account_manager rules\<rparr>) rq upd user db = (Inr u, db')"
    then obtain db1 where "update_account rules upd user True db = (Inr u, db1)"
      by (auto simp add: update_me_def eff_defs account_manager_def
            split: prod.splits sum.splits option.splits exc.splits)
    then show "superuser u = superuser user \<and> verified u = verified user \<and> active u = active user"
      by (rule update_account_safe_flags)
  qed
next
  show "update_me (r\<lparr>get_user_manager := account_manager rules\<rparr>) rq
        (upd\<lparr>new_active := a, new_verified := v, new_superuser := su\<rparr>) user db =
      update_me (r\<lparr>get_user_manager := account_manager rules\<rparr>) rq upd user db"
    by (simp add: update_me_def account_manager_def update_account_safe_ignores
          create_update_dict_ignores cong: option.case_cong)
qed

text \<open>
  Scenario 2 of the spec: \<open>alice\<close>, who is no superuser, sends \<open>superuser = true\<close> to her
  own account; the update succeeds and she is no superuser afterwards.
\<close>

theorem self_update_keeps_privileged_fields_witness:
  "update_me (users_api house_rules None False) (request_of 1)
     (no_change\<lparr>new_superuser := Some True\<rparr>) alice directory = (Inr alice, directory)
   \<and> superuser alice = False"
  using self_update_keeps_privileged_fields [where r = "users_api house_rules None False"
      and rules = house_rules and rq = "request_of 1"
      and upd = "no_change\<lparr>new_superuser := Some True\<rparr>"
      and user = alice and db = directory and u = alice and db' = directory]
  by (simp add: world_defs run_defs manager_defs)

text \<open>
  Claim C2. A request on the self route takes a payload and no identifier. Its log is
  the resolution of the principal with the requirements of the route, then, when a
  principal \<open>p\<close> came back, one update whose target is \<open>p\<close> in safe mode, then the
  notification: no lookup, no deletion, no update of another target. With the manager and
  the resolver of the spec and a hook that leaves the store alone, every account but the
  caller's is after the request what it was before.
\<close>

theorem self_update_targets_caller_only:
  "fst (snd (get_users_router (traced_router r) (PATCH_me upd) rq (l, s))) =
     l @ Resolve True (requires_verification r) False rq #
       (case get_current_active_user r rq s of
          (Inl e, s0) \<Rightarrow> []
        | (Inr p, s0) \<Rightarrow>
            Update upd p True #
              notified r (create_update_dict upd) rq
                (fst (um_update (get_user_manager r) upd p True s0)))
   \<and> ((\<forall>h a d q db0. ho = Some h \<longrightarrow> snd (h a d q db0) = db0) \<and> principal_id rq' \<noteq> Some i \<longrightarrow>
        find (\<lambda>a. ident a = i)
          (snd (get_users_router (users_api rules ho rv) (PATCH_me upd') rq' db)) =
        find (\<lambda>a. ident a = i) db)"
proof
  show "fst (snd (get_users_router (traced_router r) (PATCH_me upd) rq (l, s))) =
     l @ Resolve True (requires_verification r) False rq #
       (case get_current_active_user r rq s of
          (Inl e, s0) \<Rightarrow> []
        | (Inr p, s0) \<Rightarrow>
            Update upd p True #
              notified r (create_update_dict upd) rq
                (fst (um_update (get_user_manager r) upd p True s0)))"
    by (simp add: get_users_router_def then_eff_def return_eff_def respond_user_def traced_simps
          split: prod.splits sum.splits)
next
  show "(\<forall>h a d q db0. ho = Some h \<longrightarrow> snd (h a d q db0) = db0) \<and> principal_id rq' \<noteq> Some i \<longrightarrow>
        find (\<lambda>a. ident a = i)
          (snd (get_users_router (users_api rules ho rv) (PATCH_me upd') rq' db)) =
        find (\<lambda>a. ident a = i) db"
  proof
    assume hyps: "(\<forall>h a d q db0. ho = Some h \<longrightarrow> snd (h a d q db0) = db0) \<and> principal_id rq' \<noteq> Some i"
    show "find (\<lambda>a. ident a = i)
          (snd (get_users_router (users_api rules ho rv) (PATCH_me upd') rq' db)) =
        find (\<lambda>a. ident a = i) db"
    proof (cases "resolve_principal True rv False rq' db")
      case (Pair res db0)
      then have db0: "db0 = db"
        using resolve_principal_store [of True rv False rq' db] by simp
      show ?thesis
      proof (cases res)
        case (Inl e)
        with Pair db0 show ?thesis
          by (simp add: get_users_router_def then_eff_def get_current_active_user_def
                users_api_def principal_resolver_def)
      next
        case (Inr p)
        with Pair have "principal_id rq' = Some (ident p)"
          using resolve_principal_ident by blast
        with hyps have other: "ident p \<noteq> i" by auto
        have "snd (get_users_router (users_api rules ho rv) (PATCH_me upd') rq' db) =
              snd (update_me (users_api rules ho rv) rq' upd' p db)"
          using Pair Inr db0
          by (simp add: get_users_router_def then_eff_def return_eff_def respond_user_def
                get_current_active_user_def users_api_def principal_resolver_def
                split: prod.splits sum.splits)
        moreover have "snd (update_me (users_api rules ho rv) rq' upd' p db) =
              snd (update_account rules upd' p True db)"
          using hyps by (intro update_me_store) blast
        ultimately show ?thesis
          using update_account_other [OF other] by simp
      qed
    qed
  qed
qed

text \<open>
  Scenario 1 of the spec: \<open>alice\<close> changes her email. The log holds her resolution, one
  update of her account and the notification; \<open>carol\<close> is untouched.
\<close>

theorem self_update_targets_caller_only_witness:
  "fst (snd (get_users_router (traced_router (users_api house_rules (Some quiet_hook) False))
        (PATCH_me (no_change\<lparr>new_email := Some ''alice@wonderland.org''\<rparr>)) (request_of 1)
        ([], directory))) =
     [Resolve True False False (request_of 1),
      Update (no_change\<lparr>new_email := Some ''alice@wonderland.org''\<rparr>) alice True,
      Notify (alice\<lparr>email := ''alice@wonderland.org''\<rparr>)
        (no_change\<lparr>new_email := Some ''alice@wonderland.org''\<rparr>) (request_of 1)]
   \<and> find (\<lambda>a. ident a = 3)
        (snd (get_users_router (users_api house_rules (Some quiet_hook) False)
           (PATCH_me (no_change\<lparr>new_email := Some ''alice@wonderland.org''\<rparr>)) (request_of 1)
           directory)) = Some carol"
  using self_update_targets_caller_only [where r = "users_api house_rules (Some quiet_hook) False"
      and upd = "no_change\<lparr>new_email := Some ''alice@wonderland.org''\<rparr>"
      and rq = "request_of 1" and l = "[]" and s = directory
      and ho = "Some quiet_hook" and rq' = "request_of 1" and i = 3 and rules = house_rules
      and rv = False and db = directory
      and upd' = "no_change\<lparr>new_email := Some ''alice@wonderland.org''\<rparr>"]
  by (simp add: world_defs notified_def get_current_active_user_def manager_defs return_eff_def)

section \<open>The administrative update\<close>

text \<open>
  Claim C3. A request on PATCH /{id} resolves a superuser, looks the identifier up and
  calls the manager's update on the account that was looked up, with \<open>safe = False\<close>,
  then notifies: this is its whole log, for any manager, resolver and hook. With the
  manager of the spec, when the request of a caller who passed the gate, for an identifier
  the store knows, is answered with success, the answer is 200 with an account in which
  each of \<open>superuser\<close>, \<open>verified\<close> and \<open>active\<close> that the payload names has the payload's
  value, and each one it does not name is as the target had it: a payload with
  \<open>superuser = true\<close> makes the target a superuser. With a hook that leaves the store
  alone, that account is the one the store then holds under the identifier.
\<close>

theorem admin_update_copies_privileged_fields:
  fixes r :: "'s router" and r' :: "store router"
  shows
  "fst (snd (get_users_router (traced_router r) (PATCH_id i upd) rq (l, s))) =
     l @ Resolve True (requires_verification r) True rq #
       (case get_current_superuser r rq s of
          (Inl e, s0) \<Rightarrow> []
        | (Inr p, s0) \<Rightarrow>
            Get i #
              (case get_user_or_404 r i s0 of
                 (Inl e, s1) \<Rightarrow> []
               | (Inr user, s1) \<Rightarrow>
                   Update upd user False #
                     notified r (create_update_dict_superuser upd) rq
                       (fst (um_update (get_user_manager r) upd user False s1))))
   \<and> (get_current_superuser r' rq' db = (Inr p', db0)
        \<and> find (\<lambda>a. ident a = i') db0 = Some target
        \<and> get_users_router (r'\<lparr>get_user_manager := account_manager rules\<rparr>)
             (PATCH_id i' upd') rq' db = (Inr resp, db') \<longrightarrow>
       (\<exists>u. resp = \<lparr>status_code = 200, content = Account (user_model u)\<rparr>
          \<and> superuser u = (case new_superuser upd' of None \<Rightarrow> superuser target | Some b \<Rightarrow> b)
          \<and> verified u = (case new_verified upd' of None \<Rightarrow> verified target | Some b \<Rightarrow> b)
          \<and> active u = (case new_active upd' of None \<Rightarrow> active target | Some b \<Rightarrow> b)
          \<and> ((\<forall>h a d q st. after_update r' = Some h \<longrightarrow> snd (h a d q st) = st) \<longrightarrow>
                find (\<lambda>a. ident a = i') db' = Some u)))"
proof
  show "fst (snd (get_users_router (traced_router r) (PATCH_id i upd) rq (l, s))) =
     l @ Resolve True (requires_verification r) True rq #
       (case get_current_superuser r rq s of
          (Inl e, s0) \<Rightarrow> []
        | (Inr p, s0) \<Rightarrow>
            Get i #
              (case get_user_or_404 r i s0 of
                 (Inl e, s1) \<Rightarrow> []
               | (Inr user, s1) \<Rightarrow>
                   Update upd user False #
                     notified r (create_update_dict_superuser upd) rq
                       (fst (um_update (get_user_manager r) upd user False s1))))"
    by (simp add: get_users_router_def then_eff_def return_eff_def respond_user_def traced_simps
          split: prod.splits sum.splits)
next
  show "get_current_superuser r' rq' db = (Inr p', db0)
        \<and> find (\<lambda>a. ident a = i') db0 = Some target
        \<and> get_users_router (r'\<lparr>get_user_manager := account_manager rules\<rparr>)
             (PATCH_id i' upd') rq' db = (Inr resp, db') \<longrightarrow>
       (\<exists>u. resp = \<lparr>status_code = 200, content = Account (user_model u)\<rparr>
          \<and> superuser u = (case new_superuser upd' of None \<Rightarrow> superuser target | Some b \<Rightarrow> b)
          \<and> verified u = (case new_verified upd' of None \<Rightarrow> verified target | Some b \<Rightarrow> b)
          \<and> active u = (case new_active upd' of None \<Rightarrow> active target | Some b \<Rightarrow> b)
          \<and> ((\<forall>h a d q st. after_update r' = Some h \<longrightarrow> snd (h a d q st) = st) \<longrightarrow>
                find (\<lambda>a. ident a = i') db' = Some u))"
  proof
    assume hyps: "get_current_superuser r' rq' db = (Inr p', db0)
        \<and> find (\<lambda>a. ident a = i') db0 = Some target
        \<and> get_users_router (r'\<lparr>get_user_manager := account_manager rules\<rparr>)
             (PATCH_id i' upd') rq' db = (Inr resp, db')"
    then have gate: "get_current_superuser (r'\<lparr>get_user_manager := account_manager rules\<rparr>) rq' db =
        (Inr p', db0)"
      by (simp add: get_current_superuser_def)
    from hyps have found: "find (\<lambda>a. ident a = i') db0 = Some target" by simp
    then have look: "get_user_or_404 (r'\<lparr>get_user_manager := account_manager rules\<rparr>) i' db0 =
        (Inr target, db0)"
      by (simp add: get_user_or_404_def eff_defs account_manager_def get_account_def)
    from found have id_target: "ident target = i'"
      by (auto simp add: find_Some_iff)
    obtain res db2 where run: "update_user (r'\<lparr>get_user_manager := account_manager rules\<rparr>)
        upd' rq' target db0 = (res, db2)"
      by (cases "update_user (r'\<lparr>get_user_manager := account_manager rules\<rparr>) upd' rq' target db0")
    from hyps gate look run obtain u where res: "res = Inr u" and db2: "db2 = db'"
      and resp: "resp = \<lparr>status_code = 200, content = Account (user_model u)\<rparr>"
      by (cases res)
         (auto simp add: get_users_router_def then_eff_def return_eff_def respond_user_def
            HTTP_200_OK_def)
    from run res db2 have "update_user (r'\<lparr>get_user_manager := account_manager rules\<rparr>)
        upd' rq' target db0 = (Inr u, db')"
      by simp
    from update_user_success [OF this] obtain db1 where
      upd: "update_account rules upd' target False db0 = (Inr u, db1)" and
      frame: "(\<forall>h a d q st. after_update r' = Some h \<longrightarrow> snd (h a d q st) = st) \<longrightarrow> db' = db1"
      by blast
    from upd have flags:
      "superuser u = (case new_superuser upd' of None \<Rightarrow> superuser target | Some b \<Rightarrow> b) \<and>
       verified u = (case new_verified upd' of None \<Rightarrow> verified target | Some b \<Rightarrow> b) \<and>
       active u = (case new_active upd' of None \<Rightarrow> active target | Some b \<Rightarrow> b)"
      by (rule update_account_unsafe_flags)
    from upd have db1: "db1 = store_account u db0" and id_u: "ident u = i'"
      using update_account_success [where rules = rules and upd = upd' and user = target
          and safe = False and db = db0 and u = u and ?db1.0 = db1] id_target by auto
    have "find (\<lambda>a. ident a = i') db1 = Some u"
      using find_store_account_same [where a' = u and db = db0 and b = target] found db1 id_u
      by simp
    with frame have stored: "(\<forall>h a d q st. after_update r' = Some h \<longrightarrow> snd (h a d q st) = st) \<longrightarrow>
                find (\<lambda>a. ident a = i') db' = Some u"
      by auto
    from resp flags stored show "\<exists>u. resp = \<lparr>status_code = 200, content = Account (user_model u)\<rparr>
          \<and> superuser u = (case new_superuser upd' of None \<Rightarrow> superuser target | Some b \<Rightarrow> b)
          \<and> verified u = (case new_verified upd' of None \<Rightarrow> verified target | Some b \<Rightarrow> b)
          \<and> active u = (case new_active upd' of None \<Rightarrow> active target | Some b \<Rightarrow> b)
          \<and> ((\<forall>h a d q st. after_update r' = Some h \<longrightarrow> snd (h a d q st) = st) \<longrightarrow>
                find (\<lambda>a. ident a = i') db' = Some u)"
      by blast
  qed
qed

text \<open>
  \<open>root\<close> sends \<open>superuser = true\<close> for \<open>carol\<close>, who is no superuser: the request is
  answered 200, the account in the answer and the one in the store are superusers, and
  the log shows the lookup of \<open>carol\<close>, her update in privileged mode and the notification.
\<close>

theorem admin_update_copies_privileged_fields_witness:
  "get_users_router (traced_router (users_api house_rules (Some quiet_hook) False))
      (PATCH_id 3 (no_change\<lparr>new_superuser := Some True\<rparr>)) (request_of 2) ([], directory) =
     (Inr \<lparr>status_code = 200, content = Account (user_model (carol\<lparr>superuser := True\<rparr>))\<rparr>,
      ([Resolve True False True (request_of 2), Get 3,
        Update (no_change\<lparr>new_superuser := Some True\<rparr>) carol False,
        Notify (carol\<lparr>superuser := True\<rparr>) (no_change\<lparr>new_superuser := Some True\<rparr>) (request_of 2)],
       [alice, root, carol\<lparr>superuser := True\<rparr>]))
   \<and> superuser carol = False
   \<and> find (\<lambda>a. ident a = 3) [alice, root, carol\<lparr>superuser := True\<rparr>] = Some (carol\<lparr>superuser := True\<rparr>)
   \<and> superuser (carol\<lparr>superuser := True\<rparr>) = True"
  using admin_update_copies_privileged_fields [where r = "users_api house_rules (Some quiet_hook) False" and i = 3
      and upd = "no_change\<lparr>new_superuser := Some True\<rparr>" and rq = "request_of 2" and l = "[]"
      and s = directory
      and r' = "users_api house_rules (Some quiet_hook) False" and rq' = "request_of 2"
      and db = directory and p' = root and ?db0.0 = directory and i' = 3 and target = carol
      and rules = house_rules and upd' = "no_change\<lparr>new_superuser := Some True\<rparr>"
      and resp = "\<lparr>status_code = 200, content = Account (user_model (carol\<lparr>superuser := True\<rparr>))\<rparr>"
      and db' = "[alice, root, carol\<lparr>superuser := True\<rparr>]"]
  by (simp add: world_defs run_defs manager_defs notified_def traced_router_def
        traced_manager_def traced_def)

section \<open>The gate and the lookup\<close>

text \<open>
  Claim C4. Every route first asks the resolver for a principal that is active, that is
  verified exactly when \<^verbatim>\<open>requires_verification\<close> is set, and that is a superuser exactly
  on the three routes addressed by identifier: this call is the first entry any request
  adds to the log. When the resolver refuses, the request ends with the resolver's error
  and the log holds nothing else: no lookup, no update, no deletion, no notification.
  With the resolver of the spec, a caller whose account is inactive, or unverified while
  verification is required, or no superuser on a route addressed by identifier, is
  refused in this way.
\<close>

theorem gate_runs_before_core:
  "(\<exists>rest. fst (snd (get_users_router (traced_router r) op rq (l, s))) =
      l @ Resolve True (requires_verification r) (admin_only op) rq # rest)
   \<and> (current_user (authenticator r) True (requires_verification r) (admin_only op) rq s = (Inl e, s') \<longrightarrow>
        get_users_router (traced_router r) op rq (l, s) =
          (Inl e, (l @ [Resolve True (requires_verification r) (admin_only op) rq], s')))
   \<and> (principal_id rq' = Some j \<and> find (\<lambda>a. ident a = j) db = Some a
        \<and> (\<not> active a \<or> (rv \<and> \<not> verified a) \<or> (admin_only op \<and> \<not> superuser a)) \<longrightarrow>
        get_users_router (traced_router (users_api rules ho rv)) op rq' (l', db) =
          (Inl AuthorizationError, (l' @ [Resolve True rv (admin_only op) rq'], db)))"
proof (intro conjI)
  show "\<exists>rest. fst (snd (get_users_router (traced_router r) op rq (l, s))) =
      l @ Resolve True (requires_verification r) (admin_only op) rq # rest"
    by (cases op)
       (simp_all add: get_users_router_def then_eff_def return_eff_def me_def get_user_def
          respond_user_def traced_simps split: prod.splits sum.splits)
next
  show "current_user (authenticator r) True (requires_verification r) (admin_only op) rq s = (Inl e, s') \<longrightarrow>
        get_users_router (traced_router r) op rq (l, s) =
          (Inl e, (l @ [Resolve True (requires_verification r) (admin_only op) rq], s'))"
    by (cases op)
       (simp_all add: get_users_router_def then_eff_def traced_router_sel traced_pair
          get_current_active_user_def get_current_superuser_def)
next
  show "principal_id rq' = Some j \<and> find (\<lambda>a. ident a = j) db = Some a
        \<and> (\<not> active a \<or> (rv \<and> \<not> verified a) \<or> (admin_only op \<and> \<not> superuser a)) \<longrightarrow>
        get_users_router (traced_router (users_api rules ho rv)) op rq' (l', db) =
          (Inl AuthorizationError, (l' @ [Resolve True rv (admin_only op) rq'], db))"
  proof
    assume refused: "principal_id rq' = Some j \<and> find (\<lambda>a. ident a = j) db = Some a
        \<and> (\<not> active a \<or> (rv \<and> \<not> verified a) \<or> (admin_only op \<and> \<not> superuser a))"
    then have "resolve_principal True rv (admin_only op) rq' db = (Inl AuthorizationError, db)"
      by (auto simp add: resolve_principal_def)
    then show "get_users_router (traced_router (users_api rules ho rv)) op rq' (l', db) =
          (Inl AuthorizationError, (l' @ [Resolve True rv (admin_only op) rq'], db))"
      by (cases op)
         (simp_all add: get_users_router_def then_eff_def traced_router_sel traced_pair
            get_current_active_user_def get_current_superuser_def users_api_def
            principal_resolver_def)
  qed
qed

text \<open>
  With verification required, \<open>carol\<close>, who is not verified, is refused on her own
  account; \<open>alice\<close>, who is no superuser, is refused the deletion of \<open>carol\<close>, and \<open>carol\<close>
  is not even looked up; an anonymous caller is refused the account of nobody.
\<close>

theorem gate_runs_before_core_witness:
  "get_users_router (traced_router (users_api house_rules None True)) (PATCH_me no_change)
      (request_of 3) ([], directory) =
     (Inl AuthorizationError, ([Resolve True True False (request_of 3)], directory))
   \<and> get_users_router (traced_router (users_api house_rules None True)) (DELETE_id 3)
      (request_of 1) ([], directory) =
     (Inl AuthorizationError, ([Resolve True True True (request_of 1)], directory))
   \<and> get_users_router (traced_router (users_api house_rules None True)) GET_me
      anonymous ([], directory) =
     (Inl AuthorizationError, ([Resolve True True False anonymous], directory))"
  using gate_runs_before_core [where r = "users_api house_rules None True"
      and op = "PATCH_me no_change" and rq = "request_of 3" and l = "[]" and s = directory
      and e = AuthorizationError and s' = directory
      and rq' = "request_of 3" and j = 3 and db = directory and a = carol and rv = True
      and rules = house_rules and ho = None and l' = "[]"]
    gate_runs_before_core [where r = "users_api house_rules None True"
      and op = "DELETE_id 3" and rq = "request_of 1" and l = "[]" and s = directory
      and e = AuthorizationError and s' = directory
      and rq' = "request_of 1" and j = 1 and db = directory and a = alice and rv = True
      and rules = house_rules and ho = None and l' = "[]"]
    gate_runs_before_core [where r = "users_api house_rules None True"
      and op = GET_me and rq = anonymous and l = "[]" and s = directory
      and e = AuthorizationError and s' = directory]
  by (simp add: world_defs anonymous_def resolve_principal_def)

text \<open>
  Claim C5, as the router has it. A request on a route addressed by identifier that has
  passed the superuser gate, and whose identifier the manager does not know, ends with
  404 whatever the payload; the log holds the resolution and the lookup and nothing
  else. (A request that does not pass the gate ends with the resolver's error before any
  lookup, known identifier or not: see the counterexample below.)
\<close>

theorem unknown_id_is_404_behind_gate:
  assumes "get_current_superuser r rq s = (Inr p, s0)"
      and "um_get (get_user_manager r) i s0 = (Inl UserNotExists, s1)"
  shows "get_users_router (traced_router r) (GET_id i) rq (l, s) =
           (Inl (HTTPException 404 NoDetail),
            (l @ [Resolve True (requires_verification r) True rq, Get i], s1))
       \<and> get_users_router (traced_router r) (PATCH_id i upd) rq (l, s) =
           (Inl (HTTPException 404 NoDetail),
            (l @ [Resolve True (requires_verification r) True rq, Get i], s1))
       \<and> get_users_router (traced_router r) (DELETE_id i) rq (l, s) =
           (Inl (HTTPException 404 NoDetail),
            (l @ [Resolve True (requires_verification r) True rq, Get i], s1))"
proof -
  have "get_user_or_404 r i s0 = (Inl (HTTPException 404 NoDetail), s1)"
    using assms(2) by (simp add: get_user_or_404_def eff_defs HTTP_404_NOT_FOUND_def)
  with assms(1) show ?thesis
    by (simp add: get_users_router_def then_eff_def traced_simps)
qed

text \<open>\<open>root\<close> reads, updates and deletes the identifier 9, which no account has.\<close>

theorem unknown_id_is_404_behind_gate_witness:
  "get_users_router (traced_router (users_api house_rules (Some quiet_hook) False)) (GET_id 9)
      (request_of 2) ([], directory) =
     (Inl (HTTPException 404 NoDetail), ([Resolve True False True (request_of 2), Get 9], directory))
   \<and> get_users_router (traced_router (users_api house_rules (Some quiet_hook) False))
      (PATCH_id 9 (no_change\<lparr>new_active := Some False\<rparr>)) (request_of 2) ([], directory) =
     (Inl (HTTPException 404 NoDetail), ([Resolve True False True (request_of 2), Get 9], directory))
   \<and> get_users_router (traced_router (users_api house_rules (Some quiet_hook) False)) (DELETE_id 9)
      (request_of 2) ([], directory) =
     (Inl (HTTPException 404 NoDetail), ([Resolve True False True (request_of 2), Get 9], directory))"
  using unknown_id_is_404_behind_gate [where r = "users_api house_rules (Some quiet_hook) False"
      and rq = "request_of 2" and s = directory and p = root and ?s0.0 = directory and i = 9
      and ?s1.0 = directory and l = "[]" and upd = "no_change\<lparr>new_active := Some False\<rparr>"]
  by (simp add: world_defs get_current_superuser_def manager_defs)

text \<open>
  Claim C5 as stated fails for a caller the gate refuses: \<open>alice\<close>, who is no superuser,
  reads the identifier 9, which no account has. The request ends with the authorization
  error, not with 404, and the identifier is never looked up.
\<close>

theorem unknown_id_refused_at_gate:
  "fst (get_account 9 directory) = Inl UserNotExists
   \<and> get_users_router (traced_router (users_api house_rules None False)) (GET_id 9)
        (request_of 1) ([], directory) =
       (Inl AuthorizationError, ([Resolve True False True (request_of 1)], directory))
   \<and> fst (get_users_router (users_api house_rules None False) (GET_id 9) (request_of 1) directory)
       \<noteq> Inl (HTTPException 404 NoDetail)"
  by (simp add: world_defs run_defs manager_defs traced_router_def traced_manager_def traced_def)

section \<open>Errors of the update handlers\<close>

text \<open>
  Claim C6. When the manager's update raises \<^verbatim>\<open>InvalidPasswordException\<close>, both update
  handlers raise the 400 error whose detail is the code \<open>UPDATE_USER_INVALID_PASSWORD\<close>
  with the reason of the exception; when it raises \<^verbatim>\<open>UserAlreadyExists\<close>, both raise the
  400 error whose detail is the code \<open>UPDATE_USER_EMAIL_ALREADY_EXISTS\<close>. The two handlers
  map the two errors alike, for any manager.
\<close>

theorem update_errors_translated_alike:
  "(um_update (get_user_manager r) upd user True s = (Inl (InvalidPasswordException reason), s') \<longrightarrow>
      update_me r rq upd user s =
        (Inl (HTTPException 400 (CodeReason UPDATE_USER_INVALID_PASSWORD reason)), s'))
   \<and> (um_update (get_user_manager r) upd user False s = (Inl (InvalidPasswordException reason), s') \<longrightarrow>
      update_user r upd rq user s =
        (Inl (HTTPException 400 (CodeReason UPDATE_USER_INVALID_PASSWORD reason)), s'))
   \<and> (um_update (get_user_manager r) upd user True s = (Inl UserAlreadyExists, s') \<longrightarrow>
      update_me r rq upd user s =
        (Inl (HTTPException 400 (Code UPDATE_USER_EMAIL_ALREADY_EXISTS)), s'))
   \<and> (um_update (get_user_manager r) upd user False s = (Inl UserAlreadyExists, s') \<longrightarrow>
      update_user r upd rq user s =
        (Inl (HTTPException 400 (Code UPDATE_USER_EMAIL_ALREADY_EXISTS)), s'))"
  by (simp add: update_me_def update_user_def eff_defs HTTP_400_BAD_REQUEST_def)

text \<open>
  A password of two characters, which the rule of the deployment rejects, and the email
  of \<open>carol\<close>, proposed for \<open>alice\<close>, each on both routes.
\<close>

theorem update_errors_translated_alike_witness:
  "update_me (users_api house_rules None False) (request_of 1)
      (no_change\<lparr>new_password := Some ''pw''\<rparr>) alice directory =
     (Inl (HTTPException 400 (CodeReason UPDATE_USER_INVALID_PASSWORD ''Password too short'')), directory)
   \<and> update_user (users_api house_rules None False)
      (no_change\<lparr>new_password := Some ''pw''\<rparr>) (request_of 2) alice directory =
     (Inl (HTTPException 400 (CodeReason UPDATE_USER_INVALID_PASSWORD ''Password too short'')), directory)
   \<and> update_me (users_api house_rules None False) (request_of 1)
      (no_change\<lparr>new_email := Some ''carol@example.com''\<rparr>) alice directory =
     (Inl (HTTPException 400 (Code UPDATE_USER_EMAIL_ALREADY_EXISTS)), directory)
   \<and> update_user (users_api house_rules None False)
      (no_change\<lparr>new_email := Some ''carol@example.com''\<rparr>) (request_of 2) alice directory =
     (Inl (HTTPException 400 (Code UPDATE_USER_EMAIL_ALREADY_EXISTS)), directory)"
  using update_errors_translated_alike [where r = "users_api house_rules None False"
      and rq = "request_of 1" and upd = "no_change\<lparr>new_password := Some ''pw''\<rparr>"
      and user = alice and s = directory and s' = directory
      and reason = "''Password too short''"]
    update_errors_translated_alike [where r = "users_api house_rules None False"
      and rq = "request_of 2" and upd = "no_change\<lparr>new_password := Some ''pw''\<rparr>"
      and user = alice and s = directory and s' = directory
      and reason = "''Password too short''"]
    update_errors_translated_alike [where r = "users_api house_rules None False"
      and rq = "request_of 1" and upd = "no_change\<lparr>new_email := Some ''carol@example.com''\<rparr>"
      and user = alice and s = directory and s' = directory]
    update_errors_translated_alike [where r = "users_api house_rules None False"
      and rq = "request_of 2" and upd = "no_change\<lparr>new_email := Some ''carol@example.com''\<rparr>"
      and user = alice and s = directory and s' = directory]
  by (simp add: world_defs manager_defs)

text \<open>
  Claim C8, as the manager of the spec has it. When an update proposes an email that
  another account holds, and the password it proposes, if any, passes the password rule,
  both update handlers raise the 400 error with the code
  \<open>UPDATE_USER_EMAIL_ALREADY_EXISTS\<close>; the store is what it was, and the log holds the call
  of the update and no notification, whatever hook is configured.
\<close>

theorem email_conflict_leaves_store:
  fixes r :: "store router"
  assumes "new_email upd = Some e"
      and "list_ex (\<lambda>b. ident b \<noteq> ident user \<and> email b = e) db"
      and "\<forall>p. new_password upd = Some p \<longrightarrow> password_rule rules p = None"
  shows "update_me (traced_router (r\<lparr>get_user_manager := account_manager rules\<rparr>)) rq upd user (l, db) =
           (Inl (HTTPException 400 (Code UPDATE_USER_EMAIL_ALREADY_EXISTS)),
            (l @ [Update upd user True], db))
       \<and> update_user (traced_router (r\<lparr>get_user_manager := account_manager rules\<rparr>)) upd rq user (l, db) =
           (Inl (HTTPException 400 (Code UPDATE_USER_EMAIL_ALREADY_EXISTS)),
            (l @ [Update upd user False], db))"
proof -
  have "update_account rules upd user safe db = (Inl UserAlreadyExists, db)" for safe
    using assms
    by (cases "new_password upd")
       (simp_all add: update_account_def validate_password_def email_conflict_def
          create_update_dict_def create_update_dict_superuser_def)
  then have
    "update_me (r\<lparr>get_user_manager := account_manager rules\<rparr>) rq upd user db =
       (Inl (HTTPException 400 (Code UPDATE_USER_EMAIL_ALREADY_EXISTS)), db)"
    "update_user (r\<lparr>get_user_manager := account_manager rules\<rparr>) upd rq user db =
       (Inl (HTTPException 400 (Code UPDATE_USER_EMAIL_ALREADY_EXISTS)), db)"
    "fst (um_update (get_user_manager (r\<lparr>get_user_manager := account_manager rules\<rparr>))
        upd user safe db) = Inl UserAlreadyExists" for safe
    by (simp_all add: update_me_def update_user_def eff_defs account_manager_def
          HTTP_400_BAD_REQUEST_def)
  then show ?thesis
    by (simp add: update_me_traced update_user_traced notified_def)
qed

text \<open>
  Scenario 5 of the spec: the email of \<open>carol\<close> is proposed for \<open>alice\<close>, with a password
  that the rule accepts, on both routes and with a hook configured.
\<close>

theorem email_conflict_leaves_store_witness:
  "update_me (traced_router (users_api house_rules (Some quiet_hook) False)) (request_of 1)
      (no_change\<lparr>new_email := Some ''carol@example.com'', new_password := Some ''looking-glass''\<rparr>)
      alice ([], directory) =
     (Inl (HTTPException 400 (Code UPDATE_USER_EMAIL_ALREADY_EXISTS)),
      ([Update (no_change\<lparr>new_email := Some ''carol@example.com'',
                  new_password := Some ''looking-glass''\<rparr>) alice True], directory))
   \<and> update_user (traced_router (users_api house_rules (Some quiet_hook) False))
      (no_change\<lparr>new_email := Some ''carol@example.com'', new_password := Some ''looking-glass''\<rparr>)
      (request_of 2) alice ([], directory) =
     (Inl (HTTPException 400 (Code UPDATE_USER_EMAIL_ALREADY_EXISTS)),
      ([Update (no_change\<lparr>new_email := Some ''carol@example.com'',
                  new_password := Some ''looking-glass''\<rparr>) alice False], directory))"
  using email_conflict_leaves_store [where r = "users_api house_rules (Some quiet_hook) False"
      and rules = house_rules
      and upd = "no_change\<lparr>new_email := Some ''carol@example.com'',
                  new_password := Some ''looking-glass''\<rparr>"
      and e = "''carol@example.com''" and user = alice and db = directory and l = "[]"
      and rq = "request_of 1"]
    email_conflict_leaves_store [where r = "users_api house_rules (Some quiet_hook) False"
      and rules = house_rules
      and upd = "no_change\<lparr>new_email := Some ''carol@example.com'',
                  new_password := Some ''looking-glass''\<rparr>"
      and e = "''carol@example.com''" and user = alice and db = directory and l = "[]"
      and rq = "request_of 2"]
  by (simp add: users_api_manager alice_def root_def carol_def directory_def house_rules_def
        no_change_def)

text \<open>
  Claim C8 as stated fails when the payload also proposes a password that the rule
  rejects: the email of \<open>carol\<close>, who is another account of the store, is proposed for
  \<open>alice\<close> together with a password of two characters. The password is checked before
  the store is asked to write, so the request ends with the invalid-password error, not
  with the already-exists error. The store is unchanged all the same.
\<close>

theorem email_conflict_behind_password_rule:
  "new_email (no_change\<lparr>new_email := Some ''carol@example.com'', new_password := Some ''pw''\<rparr>)
      = Some (email carol)
   \<and> find (\<lambda>a. ident a = 3) directory = Some carol \<and> ident carol \<noteq> ident alice
   \<and> update_me (users_api house_rules None False) (request_of 1)
      (no_change\<lparr>new_email := Some ''carol@example.com'', new_password := Some ''pw''\<rparr>)
      alice directory =
     (Inl (HTTPException 400 (CodeReason UPDATE_USER_INVALID_PASSWORD ''Password too short'')),
      directory)
   \<and> fst (update_me (users_api house_rules None False) (request_of 1)
      (no_change\<lparr>new_email := Some ''carol@example.com'', new_password := Some ''pw''\<rparr>)
      alice directory) \<noteq> Inl (HTTPException 400 (Code UPDATE_USER_EMAIL_ALREADY_EXISTS))"
  by (simp add: world_defs run_defs manager_defs)

section \<open>The notification hook\<close>

text \<open>
  Claim C7. An update handler calls the hook when, and only when, a hook is configured
  and the manager's update returned an account. The log of the handler is the call of the
  update, in the mode of the route, followed by at most one notification, whose arguments
  are the account the update returned, the change set of the route's mode
  (\<^verbatim>\<open>create_update_dict\<close> on the self route, \<^verbatim>\<open>create_update_dict_superuser\<close> on the
  administrative one) and the request.
\<close>

theorem hook_invoked_once_after_update:
  "fst (snd (update_me (traced_router r) rq upd user (l, s))) =
     l @ Update upd user True #
       (case fst (um_update (get_user_manager r) upd user True s) of
          Inl e \<Rightarrow> []
        | Inr u \<Rightarrow> (case after_update r of
                     None \<Rightarrow> []
                   | Some h \<Rightarrow> [Notify u (create_update_dict upd) rq]))
   \<and> fst (snd (update_user (traced_router r) upd rq user (l, s))) =
     l @ Update upd user False #
       (case fst (um_update (get_user_manager r) upd user False s) of
          Inl e \<Rightarrow> []
        | Inr u \<Rightarrow> (case after_update r of
                     None \<Rightarrow> []
                   | Some h \<Rightarrow> [Notify u (create_update_dict_superuser upd) rq]))"
  by (simp add: update_me_traced update_user_traced notified_def)

text \<open>
  The payload \<open>superuser = true\<close> for \<open>alice\<close> on both routes, with a hook: on the self
  route the hook sees her unchanged account and a change set without the flag, on the
  administrative route the superuser she has become and the change set with the flag.
\<close>

theorem hook_invoked_once_after_update_witness:
  "fst (snd (update_me (traced_router (users_api house_rules (Some quiet_hook) False)) (request_of 1)
        (no_change\<lparr>new_superuser := Some True\<rparr>) alice ([], directory))) =
     [Update (no_change\<lparr>new_superuser := Some True\<rparr>) alice True,
      Notify alice no_change (request_of 1)]
   \<and> fst (snd (update_user (traced_router (users_api house_rules (Some quiet_hook) False))
        (no_change\<lparr>new_superuser := Some True\<rparr>) (request_of 2) alice ([], directory))) =
     [Update (no_change\<lparr>new_superuser := Some True\<rparr>) alice False,
      Notify (alice\<lparr>superuser := True\<rparr>) (no_change\<lparr>new_superuser := Some True\<rparr>) (request_of 2)]"
  using hook_invoked_once_after_update [where r = "users_api house_rules (Some quiet_hook) False"
      and rq = "request_of 1" and upd = "no_change\<lparr>new_superuser := Some True\<rparr>"
      and user = alice and l = "[]" and s = directory]
    hook_invoked_once_after_update [where r = "users_api house_rules (Some quiet_hook) False"
      and rq = "request_of 2" and upd = "no_change\<lparr>new_superuser := Some True\<rparr>"
      and user = alice and l = "[]" and s = directory]
  by (simp add: world_defs manager_defs)

text \<open>
  Claim C10. The \<^verbatim>\<open>try\<close> of both update handlers encloses the call of the hook. When the
  manager's update has returned and the hook then raises, the handler raises the 400
  error of the invalid password for \<^verbatim>\<open>InvalidPasswordException\<close>, the 400 error of the
  existing email for \<^verbatim>\<open>UserAlreadyExists\<close>, and the hook's own exception for any other;
  the world is the one the hook left, which it got from the update: nothing is rolled
  back.
\<close>

theorem hook_errors_translated_after_commit:
  "(after_update r = Some h \<and> um_update (get_user_manager r) upd user True s = (Inr u, s1)
      \<and> h u (create_update_dict upd) rq s1 = (Inl e, s2) \<longrightarrow>
     update_me r rq upd user s =
       (Inl (case e of
               InvalidPasswordException reason \<Rightarrow>
                 HTTPException 400 (CodeReason UPDATE_USER_INVALID_PASSWORD reason)
             | UserAlreadyExists \<Rightarrow> HTTPException 400 (Code UPDATE_USER_EMAIL_ALREADY_EXISTS)
             | _ \<Rightarrow> e), s2))
   \<and> (after_update r = Some h \<and> um_update (get_user_manager r) upd user False s = (Inr u, s1)
      \<and> h u (create_update_dict_superuser upd) rq s1 = (Inl e, s2) \<longrightarrow>
     update_user r upd rq user s =
       (Inl (case e of
               InvalidPasswordException reason \<Rightarrow>
                 HTTPException 400 (CodeReason UPDATE_USER_INVALID_PASSWORD reason)
             | UserAlreadyExists \<Rightarrow> HTTPException 400 (Code UPDATE_USER_EMAIL_ALREADY_EXISTS)
             | _ \<Rightarrow> e), s2))"
  by (simp add: update_me_def update_user_def eff_defs HTTP_400_BAD_REQUEST_def split: exc.splits)

text \<open>
  \<open>alice\<close> gets a new email, on either route, under a hook that raises
  \<^verbatim>\<open>InvalidPasswordException\<close>: the request ends with the 400 error of the invalid
  password, and the store holds the new email.
\<close>

theorem hook_errors_translated_after_commit_witness:
  "update_me (users_api house_rules (Some picky_hook) False) (request_of 1)
      (no_change\<lparr>new_email := Some ''alice@wonderland.org''\<rparr>) alice directory =
     (Inl (HTTPException 400 (CodeReason UPDATE_USER_INVALID_PASSWORD ''rejected by the hook'')),
      [alice\<lparr>email := ''alice@wonderland.org''\<rparr>, root, carol])
   \<and> update_user (users_api house_rules (Some picky_hook) False)
      (no_change\<lparr>new_email := Some ''alice@wonderland.org''\<rparr>) (request_of 2) alice directory =
     (Inl (HTTPException 400 (CodeReason UPDATE_USER_INVALID_PASSWORD ''rejected by the hook'')),
      [alice\<lparr>email := ''alice@wonderland.org''\<rparr>, root, carol])"
  using hook_errors_translated_after_commit [where r = "users_api house_rules (Some picky_hook) False"
      and h = picky_hook and upd = "no_change\<lparr>new_email := Some ''alice@wonderland.org''\<rparr>"
      and user = alice and s = directory and u = "alice\<lparr>email := ''alice@wonderland.org''\<rparr>"
      and ?s1.0 = "[alice\<lparr>email := ''alice@wonderland.org''\<rparr>, root, carol]"
      and rq = "request_of 1" and e = "InvalidPasswordException ''rejected by the hook''"
      and ?s2.0 = "[alice\<lparr>email := ''alice@wonderland.org''\<rparr>, root, carol]"]
    hook_errors_translated_after_commit [where r = "users_api house_rules (Some picky_hook) False"
      and h = picky_hook and upd = "no_change\<lparr>new_email := Some ''alice@wonderland.org''\<rparr>"
      and user = alice and s = directory and u = "alice\<lparr>email := ''alice@wonderland.org''\<rparr>"
      and ?s1.0 = "[alice\<lparr>email := ''alice@wonderland.org''\<rparr>, root, carol]"
      and rq = "request_of 2" and e = "InvalidPasswordException ''rejected by the hook''"
      and ?s2.0 = "[alice\<lparr>email := ''alice@wonderland.org''\<rparr>, root, carol]"]
  by (simp add: world_defs picky_hook_def manager_defs raise_exc_def)

section \<open>Deletion\<close>

text \<open>
  Claim C9. A delete request that has passed the superuser gate and whose identifier the
  store knows calls the manager's delete with the account that was looked up and answers
  204 with an empty body. The log holds the resolution, the lookup and the deletion, and
  no notification, whatever hook is configured. The manager is the one of the spec, the
  resolver and the hook are arbitrary.
\<close>

theorem delete_is_204_without_hook:
  fixes r :: "store router"
  assumes "get_current_superuser r rq db = (Inr p, db0)"
      and "find (\<lambda>a. ident a = i) db0 = Some a"
  shows "get_users_router (traced_router (r\<lparr>get_user_manager := account_manager rules\<rparr>))
           (DELETE_id i) rq (l, db) =
         (Inr \<lparr>status_code = 204, content = Empty\<rparr>,
          (l @ [Resolve True (requires_verification r) True rq, Get i, Delete a],
           filter (\<lambda>b. ident b \<noteq> ident a) db0))"
proof -
  have gate: "get_current_superuser (r\<lparr>get_user_manager := account_manager rules\<rparr>) rq db = (Inr p, db0)"
    using assms(1) by (simp add: get_current_superuser_def)
  have look: "get_user_or_404 (r\<lparr>get_user_manager := account_manager rules\<rparr>) i db0 = (Inr a, db0)"
    using assms(2) by (simp add: get_user_or_404_def eff_defs account_manager_def get_account_def)
  have del: "delete_user (r\<lparr>get_user_manager := account_manager rules\<rparr>) a db0 =
      (Inr (), filter (\<lambda>b. ident b \<noteq> ident a) db0)"
    by (simp add: delete_user_def eff_defs account_manager_def delete_account_def)
  show ?thesis
    using gate look del
    by (simp add: get_users_router_def then_eff_def return_eff_def traced_simps
          HTTP_204_NO_CONTENT_def)
qed

text \<open>
  Scenario 6 of the spec: \<open>root\<close> deletes \<open>carol\<close> while a hook is configured; the hook is
  not called and \<open>carol\<close> is gone from the store.
\<close>

theorem delete_is_204_without_hook_witness:
  "get_users_router (traced_router (users_api house_rules (Some quiet_hook) False)) (DELETE_id 3)
      (request_of 2) ([], directory) =
     (Inr \<lparr>status_code = 204, content = Empty\<rparr>,
      ([Resolve True False True (request_of 2), Get 3, Delete carol], [alice, root]))"
  using delete_is_204_without_hook [where r = "users_api house_rules (Some quiet_hook) False"
      and rules = house_rules and rq = "request_of 2" and db = directory and p = root
      and ?db0.0 = directory and i = 3 and a = carol and l = "[]"]
  by (simp add: users_api_manager alice_def root_def carol_def directory_def request_of_def
        users_api_def principal_resolver_def get_current_superuser_def resolve_principal_def)

end
